theory Spec2Isabelle
  imports Main
begin

section \<open>Strings\<close>

text \<open>
  JavaScript strings are modelled as \<open>string\<close> (lists of characters).  The helpers
  below are the string methods that \<^verbatim>\<open>databases.ts\<close> calls.
\<close>

definition quoted :: "string \<Rightarrow> string" where
  \<comment> \<open>the pieces \<^verbatim>\<open>'${x}'\<close> of the template literals of the error messages\<close>
  "quoted s = CHR 0x27 # s @ [CHR 0x27]"

definition startsWith :: "string \<Rightarrow> string \<Rightarrow> bool" where
  "startsWith s p = (take (length p) s = p)"

definition endsWith :: "string \<Rightarrow> string \<Rightarrow> bool" where
  "endsWith s x = (length x \<le> length s \<and> drop (length s - length x) s = x)"

primrec replace_first :: "char \<Rightarrow> char \<Rightarrow> string \<Rightarrow> string" where
  \<comment> \<open>\<^verbatim>\<open>s.replace(a, b)\<close> with a string pattern: only the first occurrence is replaced\<close>
  "replace_first a b [] = []"
| "replace_first a b (c # cs) = (if c = a then b # cs else c # replace_first a b cs)"

definition strip_leading_slashes :: "string \<Rightarrow> string" where
  \<comment> \<open>\<^verbatim>\<open>s.replace(/^\/*/, '')\<close>\<close>
  "strip_leading_slashes s = dropWhile (\<lambda>c. c = CHR ''/'') s"

primrec split_on :: "char \<Rightarrow> string \<Rightarrow> string list" where
  "split_on d [] = [[]]"
| "split_on d (c # cs) =
     (if c = d then [] # split_on d cs
      else (case split_on d cs of [] \<Rightarrow> [[c]] | w # ws \<Rightarrow> (c # w) # ws))"

primrec join_with :: "string \<Rightarrow> string list \<Rightarrow> string" where
  "join_with d [] = []"
| "join_with d (w # ws) = (if ws = [] then w else w @ d @ join_with d ws)"

definition lower_letters :: string where
  "lower_letters = ''abcdefghijklmnopqrstuvwxyz''"

definition upper_letters :: string where
  "upper_letters = ''ABCDEFGHIJKLMNOPQRSTUVWXYZ''"

definition isLetter :: "char \<Rightarrow> bool" where
  "isLetter c = (c \<in> set (lower_letters @ upper_letters))"

definition toLowerCase :: "char \<Rightarrow> char" where
  "toLowerCase c = (case map_of (zip upper_letters lower_letters) c of Some l \<Rightarrow> l | None \<Rightarrow> c)"


section \<open>POSIX paths (the \<^verbatim>\<open>path\<close> module)\<close>

text \<open>
  The functions of Node's \<^verbatim>\<open>path\<close> module that the source calls, for a POSIX host
  whose working directory is the root \<^verbatim>\<open>/\<close>.
\<close>

fun normalize_segments :: "bool \<Rightarrow> string list \<Rightarrow> string list \<Rightarrow> string list" where
  \<comment> \<open>\<^verbatim>\<open>normalizeString\<close>: drops empty and \<^verbatim>\<open>.\<close> segments, resolves \<^verbatim>\<open>..\<close>\<close>
  "normalize_segments allowAboveRoot acc [] = acc"
| "normalize_segments allowAboveRoot acc (s # ss) =
     (if s = [] \<or> s = ''.'' then normalize_segments allowAboveRoot acc ss
      else if s = ''..'' then
        (if acc = [] then normalize_segments allowAboveRoot (if allowAboveRoot then [''..''] else []) ss
         else if last acc = ''..'' then normalize_segments allowAboveRoot (acc @ [''..'']) ss
         else normalize_segments allowAboveRoot (butlast acc) ss)
      else normalize_segments allowAboveRoot (acc @ [s]) ss)"

definition path_normalize :: "string \<Rightarrow> string" where
  "path_normalize p =
     (if p = [] then ''.''
      else
        (let isAbsolute = (hd p = CHR ''/'');
             trailingSeparator = (last p = CHR ''/'');
             body = join_with ''/'' (normalize_segments (\<not> isAbsolute) [] (split_on CHR ''/'' p))
         in if body = [] then (if isAbsolute then ''/'' else if trailingSeparator then ''./'' else ''.'')
            else (let body' = (if trailingSeparator then body @ ''/'' else body)
                  in if isAbsolute then CHR ''/'' # body' else body')))"

definition path_join :: "string \<Rightarrow> string \<Rightarrow> string" where
  "path_join a b =
     (let joined = (if a = [] then b else if b = [] then a else a @ ''/'' @ b)
      in if joined = [] then ''.'' else path_normalize joined)"

definition path_basename :: "string \<Rightarrow> string" where
  "path_basename p =
     (case rev (filter (\<lambda>s. s \<noteq> []) (split_on CHR ''/'' p)) of [] \<Rightarrow> [] | s # _ \<Rightarrow> s)"

definition path_extname :: "string \<Rightarrow> string" where
  "path_extname p =
     (let b = path_basename p; ext = last (split_on CHR ''.'' b)
      in if b = ''..'' \<or> length b = Suc (length ext) \<or> CHR ''.'' \<notin> set b then []
         else CHR ''.'' # ext)"

definition path_resolve :: "string \<Rightarrow> string \<Rightarrow> string" where
  "path_resolve a b =
     (let r = (if startsWith b ''/'' then b
               else if startsWith a ''/'' then a @ ''/'' @ b
               else ''/'' @ a @ ''/'' @ b)
      in CHR ''/'' # join_with ''/'' (normalize_segments False [] (split_on CHR ''/'' r)))"


section \<open>The file system (\<^verbatim>\<open>fs-extra\<close> and \<^verbatim>\<open>glob-promise\<close>)\<close>

text \<open>
  The file system the resolver probes is a tree: a directory lists its entries by name.
  The order of a directory's entries stands for the enumeration order of \<^verbatim>\<open>glob\<close>.

  Two limits of this model of the libraries. A path is looked up after its \<^verbatim>\<open>.\<close> and \<^verbatim>\<open>..\<close>
  segments are resolved lexically, which is what the file system does for the paths that
  \<^verbatim>\<open>path.join\<close> has normalised and differs from it only for a path that steps through a
  missing entry and back with \<^verbatim>\<open>..\<close>. And \<open>glob\<close> below is the search in a working
  directory that is a directory or is missing (no match): a working directory that is a
  regular file, which the library rejects with an error, is not represented, so what
  follows is stated about \<^verbatim>\<open>findDataset\<close> for roots that are directories.
\<close>

datatype fsnode = File | Dir "(string \<times> fsnode) list"

fun node_at :: "fsnode \<Rightarrow> string list \<Rightarrow> fsnode option" where
  "node_at n [] = Some n"
| "node_at File (s # ss) = None"
| "node_at (Dir es) (s # ss) = (case map_of es s of None \<Rightarrow> None | Some c \<Rightarrow> node_at c ss)"

definition stat :: "fsnode \<Rightarrow> string \<Rightarrow> fsnode option" where
  "stat fs p =
     (if p = [] then None
      else (case node_at fs (normalize_segments False [] (split_on CHR ''/'' p)) of
              None \<Rightarrow> None
            | Some File \<Rightarrow> (if endsWith p ''/'' then None else Some File)
            | Some (Dir es) \<Rightarrow> Some (Dir es)))"

definition pathExists :: "fsnode \<Rightarrow> string \<Rightarrow> bool" where
  "pathExists fs p = (stat fs p \<noteq> None)"

definition segment_matches :: "string \<Rightarrow> string \<Rightarrow> bool" where
  \<comment> \<open>one pattern segment against one entry name: a literal, or a pattern with one \<^verbatim>\<open>*\<close>;
      a name that starts with a dot only matches a pattern that starts with a dot\<close>
  "segment_matches pat nm =
     (if nm = [] then False
      else if startsWith nm ''.'' \<and> \<not> startsWith pat ''.'' then False
      else (case split_on CHR ''*'' pat of
              [lit] \<Rightarrow> nm = lit
            | [pre, suf] \<Rightarrow> length pre + length suf \<le> length nm \<and> startsWith nm pre \<and> endsWith nm suf
            | _ \<Rightarrow> False))"

fun glob_walk :: "string list \<Rightarrow> fsnode \<Rightarrow> string list list" where
  \<comment> \<open>the relative paths (as segments) below a node that match the pattern's segments;
      an empty last segment is the pattern's trailing slash: directories only\<close>
  "glob_walk [] n = [[]]"
| "glob_walk (p # ps) n =
     (if p = [] then
        (case n of
           File \<Rightarrow> []
         | Dir es \<Rightarrow> (if ps = [] then [[[]]] else glob_walk ps n))
      else
        (case n of
           File \<Rightarrow> []
         | Dir es \<Rightarrow>
             concat (map (\<lambda>(nm, c). if segment_matches p nm then map ((#) nm) (glob_walk ps c) else []) es)))"

definition glob :: "fsnode \<Rightarrow> string \<Rightarrow> string \<Rightarrow> string list" where
  \<comment> \<open>\<^verbatim>\<open>glob(pattern, { cwd })\<close> for a \<^verbatim>\<open>cwd\<close> that is a directory or does not exist\<close>
  "glob fs pattern cwd =
     (case stat fs cwd of
        None \<Rightarrow> []
      | Some n \<Rightarrow> map (join_with ''/'') (glob_walk (split_on CHR ''/'' pattern) n))"


section \<open>URIs (\<^verbatim>\<open>vscode.Uri\<close>)\<close>

record Uri =
  scheme :: string
  authority :: string
  path :: string
  query :: string
  fragment :: string

definition Uri_file :: "string \<Rightarrow> Uri" where
  \<comment> \<open>\<^verbatim>\<open>vscode.Uri.file(p)\<close>, for the paths it accepts (the validation that makes it throw
      on a path such as \<^verbatim>\<open>////x\<close> is left out)\<close>
  "Uri_file p =
     (let (a, q) =
            (if startsWith p ''//''
             then (takeWhile (\<lambda>c. c \<noteq> CHR ''/'') (drop 2 p),
                   (let r = dropWhile (\<lambda>c. c \<noteq> CHR ''/'') (drop 2 p) in if r = [] then ''/'' else r))
             else ([], p))
      in \<lparr>scheme = ''file'', authority = a,
          path = (if startsWith q ''/'' then q else CHR ''/'' # q),
          query = [], fragment = []\<rparr>)"

definition is_delim :: "string \<Rightarrow> char \<Rightarrow> bool" where
  "is_delim ds c = (c \<in> set ds)"

definition Uri_parse :: "string \<Rightarrow> Uri" where
  \<comment> \<open>\<^verbatim>\<open>vscode.Uri.parse(s)\<close>, without percent-decoding\<close>
  "Uri_parse s =
     (let s0 = takeWhile (\<lambda>c. \<not> is_delim '':/?#'' c) s;
          r0 = dropWhile (\<lambda>c. \<not> is_delim '':/?#'' c) s;
          (sch, r1) = (if s0 \<noteq> [] \<and> startsWith r0 '':'' then (s0, tl r0) else ([], s));
          (auth, r2) =
            (if startsWith r1 ''//''
             then (takeWhile (\<lambda>c. \<not> is_delim ''/?#'' c) (drop 2 r1),
                   dropWhile (\<lambda>c. \<not> is_delim ''/?#'' c) (drop 2 r1))
             else ([], r1));
          pa = takeWhile (\<lambda>c. \<not> is_delim ''?#'' c) r2;
          r3 = dropWhile (\<lambda>c. \<not> is_delim ''?#'' c) r2;
          (qu, r4) =
            (if startsWith r3 ''?''
             then (takeWhile (\<lambda>c. c \<noteq> CHR ''#'') (tl r3), dropWhile (\<lambda>c. c \<noteq> CHR ''#'') (tl r3))
             else ([], r3));
          fr = (if startsWith r4 ''#'' then tl r4 else []);
          sch' = (if sch = [] then ''file'' else sch);
          pa' = (if sch' \<in> set [''file'', ''http'', ''https'']
                 then (if startsWith pa ''/'' then pa else CHR ''/'' # pa)
                 else pa)
      in \<lparr>scheme = sch', authority = auth, path = pa', query = qu, fragment = fr\<rparr>)"

definition fsPath :: "Uri \<Rightarrow> string" where
  \<comment> \<open>\<^verbatim>\<open>uri.fsPath\<close> on a POSIX host\<close>
  "fsPath u =
     (if authority u \<noteq> [] \<and> length (path u) > 1 \<and> scheme u = ''file''
      then ''//'' @ authority u @ path u
      else (case path u of
              c0 # c1 # c2 # rest \<Rightarrow>
                (if c0 = CHR ''/'' \<and> isLetter c1 \<and> c2 = CHR '':'' then toLowerCase c1 # c2 # rest
                 else path u)
            | _ \<Rightarrow> path u))"

definition encode_minimal :: "string \<Rightarrow> string" where
  "encode_minimal s =
     concat (map (\<lambda>c. if c = CHR ''#'' then ''%23'' else if c = CHR ''?'' then ''%3F'' else [c]) s)"

definition lower_drive_letter :: "string \<Rightarrow> string" where
  "lower_drive_letter p =
     (case p of
        c0 # c1 # c2 # rest \<Rightarrow>
          (if c0 = CHR ''/'' \<and> c2 = CHR '':'' then c0 # toLowerCase c1 # c2 # rest
           else if c1 = CHR '':'' then toLowerCase c0 # c1 # c2 # rest
           else p)
      | [c0, c1] \<Rightarrow> (if c1 = CHR '':'' then [toLowerCase c0, c1] else p)
      | _ \<Rightarrow> p)"

definition Uri_toString :: "Uri \<Rightarrow> string" where
  \<comment> \<open>\<^verbatim>\<open>uri.toString(true)\<close>: the formatted URI, with encoding skipped, for an authority
      without user information (the part before an \<^verbatim>\<open>@\<close> would keep its case)\<close>
  "Uri_toString u =
     (if scheme u = [] then [] else scheme u @ '':'')
     @ (if scheme u = ''file'' \<or> authority u \<noteq> [] then ''//'' else [])
     @ encode_minimal (map toLowerCase (authority u))
     @ encode_minimal (lower_drive_letter (path u))
     @ (if query u = [] then [] else CHR ''?'' # encode_minimal (query u))
     @ (if fragment u = [] then [] else CHR ''#'' # fragment u)"

definition zipArchiveScheme :: string where
  \<comment> \<open>Modelled from the spec: the constant \<^verbatim>\<open>zipArchiveScheme\<close> of
      \<^verbatim>\<open>./archive-filesystem-provider\<close>, which is not among the sources. The spec calls it
      the private scheme of the virtual archive file system; its value here only has to
      differ from \<^verbatim>\<open>file\<close>.\<close>
  "zipArchiveScheme = ''ql-zip-archive''"


section \<open>The data model of \<^verbatim>\<open>databases.ts\<close>\<close>

definition CURRENT_DB :: string where
  "CURRENT_DB = ''currentDatabase''"

definition DB_LIST :: string where
  "DB_LIST = ''databaseList''"

record DatabaseOptions =
  displayName_opt :: "string option"
  ignoreSourceArchive_opt :: "bool option"

record FullDatabaseOptions =
  displayName :: "string option"
  ignoreSourceArchive :: bool

record PersistedDatabaseItem =
  uri :: string
  state_options :: "DatabaseOptions option"

datatype DatabaseKind = Database | RawDataset

record DatabaseContents =
  kind :: DatabaseKind
  name :: string
  datasetUri :: Uri
  sourceArchiveUri :: "Uri option"
  dbSchemeUri :: "Uri option"

text \<open>
  What the source throws: a plain \<^verbatim>\<open>Error\<close> or an \<^verbatim>\<open>InvalidDatabaseError\<close>, each with
  its message.
\<close>

datatype js_error = Error string | InvalidDatabaseError string

record DatabaseItemImpl =
  databaseUri :: Uri
  error :: "js_error option"
  contents :: "DatabaseContents option"
  options :: FullDatabaseOptions

text \<open>
  What a call does besides returning: the probes of the file system, the messages handed
  to the user-notification helpers of \<^verbatim>\<open>./helpers\<close>, the call of an item's
  \<^verbatim>\<open>onChanged\<close> callback (with the item as it is at that moment) and the events that the
  manager's two emitters fire (with the reference of the item, or nothing). A function
  returns them in the order in which they happen.
\<close>

datatype effect =
    PathExists string
  | Glob string string
  | ShowWarningMessage string
  | ShowInformationMessage string
  | ShowErrorMessage string
  | OnChanged DatabaseItemImpl
  | DidChangeDatabaseItem "nat option"
  | DidChangeCurrentDatabaseItem "nat option"


section \<open>The layout prober and the resolver\<close>

definition findDataset :: "fsnode \<Rightarrow> string \<Rightarrow> (js_error + Uri) \<times> effect list" where
  "findDataset fs parentDirectory =
     (let top = glob fs ''db-*/'' parentDirectory;
          (dbRelativePaths, probes) =
            (if length top = 0
             then (glob fs ''working/db-*/'' parentDirectory,
                   [Glob ''db-*/'' parentDirectory, Glob ''working/db-*/'' parentDirectory])
             else (top, [Glob ''db-*/'' parentDirectory]))
      in if length dbRelativePaths = 0
         then (Inl (InvalidDatabaseError
                      (quoted parentDirectory @ '' does not contain a dataset directory.'')),
               probes)
         else
           (let dbAbsolutePath = path_join parentDirectory (dbRelativePaths ! 0)
            in (Inr (Uri_file dbAbsolutePath),
                probes @
                (if length dbRelativePaths > 1
                 then [ShowWarningMessage
                         (''Found multiple dataset directories in database, using ''
                          @ quoted dbAbsolutePath @ ''.'')]
                 else []))))"

fun findSourceArchive_loop :: "fsnode \<Rightarrow> string \<Rightarrow> string list \<Rightarrow> Uri option \<times> effect list" where
  \<comment> \<open>the \<^verbatim>\<open>for\<close> loop of \<^verbatim>\<open>findSourceArchive\<close> over the relative paths still to try\<close>
  "findSourceArchive_loop fs databasePath [] = (None, [])"
| "findSourceArchive_loop fs databasePath (relativePath # rest) =
     (let basePath = path_join databasePath relativePath;
          zipPath = basePath @ ''.zip''
      in if pathExists fs basePath
         then (Some (Uri_file basePath), [PathExists basePath])
         else if pathExists fs zipPath
         then (Some ((Uri_file zipPath)\<lparr>scheme := zipArchiveScheme\<rparr>),
               [PathExists basePath, PathExists zipPath])
         else (let (r, es) = findSourceArchive_loop fs databasePath rest
               in (r, [PathExists basePath, PathExists zipPath] @ es)))"

definition findSourceArchive :: "fsnode \<Rightarrow> string \<Rightarrow> bool \<Rightarrow> Uri option \<times> effect list" where
  "findSourceArchive fs databasePath silent =
     (case findSourceArchive_loop fs databasePath [''src'', ''output/src_archive''] of
        (Some u, es) \<Rightarrow> (Some u, es)
      | (None, es) \<Rightarrow>
          (None,
           es @ (if \<not> silent
                 then [ShowInformationMessage
                         (''Could not find source archive for database '' @ quoted databasePath
                          @ ''. Assuming paths are absolute.'')]
                 else [])))"

definition resolveDatabase ::
  "fsnode \<Rightarrow> string \<Rightarrow> (js_error + DatabaseContents option) \<times> effect list" where
  "resolveDatabase fs databasePath =
     (let nm = path_basename databasePath
      in case findDataset fs databasePath of
           (Inl e, es) \<Rightarrow> (Inl e, es)
         | (Inr dataset, es) \<Rightarrow>
             (let (sourceArchive, es') = findSourceArchive fs databasePath False
              in (Inr (Some \<lparr>kind = Database, name = nm, datasetUri = dataset,
                             sourceArchiveUri = sourceArchive, dbSchemeUri = None\<rparr>),
                  es @ es')))"

definition getDbSchemeFiles :: "fsnode \<Rightarrow> string \<Rightarrow> string list \<times> effect list" where
  "getDbSchemeFiles fs dbDirectory =
     (glob fs ''*.dbscheme'' dbDirectory, [Glob ''*.dbscheme'' dbDirectory])"

definition resolveRawDataset :: "fsnode \<Rightarrow> string \<Rightarrow> DatabaseContents option \<times> effect list" where
  "resolveRawDataset fs datasetPath =
     (let (files, es) = getDbSchemeFiles fs datasetPath
      in if length files > 0
         then (Some \<lparr>kind = RawDataset, name = path_basename datasetPath,
                     datasetUri = Uri_file datasetPath,
                     sourceArchiveUri = None, dbSchemeUri = None\<rparr>, es)
         else (None, es))"

definition resolveDatabaseContents :: "fsnode \<Rightarrow> Uri \<Rightarrow> (js_error + DatabaseContents) \<times> effect list" where
  "resolveDatabaseContents fs u =
     (if scheme u \<noteq> ''file''
      then (Inl (Error (''Database URI scheme '' @ quoted (scheme u)
                        @ '' not supported; only 'file' URIs are supported.'')), [])
      else
        (let databasePath = fsPath u
         in if \<not> pathExists fs databasePath
            then (Inl (InvalidDatabaseError (''Database '' @ quoted databasePath @ '' does not exist.'')),
                  [PathExists databasePath])
            else
              (case resolveDatabase fs databasePath of
                 (Inl e, es) \<Rightarrow> (Inl e, PathExists databasePath # es)
               | (Inr structured, es) \<Rightarrow>
                   (let (found, es') =
                          (case structured of
                             Some c \<Rightarrow> (Some c, [])
                           | None \<Rightarrow> resolveRawDataset fs databasePath)
                    in case found of
                         None \<Rightarrow>
                           (Inl (InvalidDatabaseError (quoted databasePath @ '' is not a valid database.'')),
                            PathExists databasePath # es @ es')
                       | Some c \<Rightarrow>
                           (let dbPath = fsPath (datasetUri c);
                                (dbSchemeFiles, es'') = getDbSchemeFiles fs dbPath;
                                probes = PathExists databasePath # es @ es' @ es''
                            in if length dbSchemeFiles = 0
                               then (Inl (InvalidDatabaseError
                                            (''Database '' @ quoted databasePath
                                             @ '' does not contain a QL dbscheme under ''
                                             @ quoted dbPath @ ''.'')), probes)
                               else if length dbSchemeFiles > 1
                               then (Inl (InvalidDatabaseError
                                            (''Database '' @ quoted databasePath
                                             @ '' contains multiple QL dbschemes under ''
                                             @ quoted dbPath @ ''.'')), probes)
                               else (Inr (c\<lparr>dbSchemeUri :=
                                              Some (Uri_file (path_resolve dbPath (dbSchemeFiles ! 0)))\<rparr>),
                                     probes))))))"


section \<open>Database items\<close>

definition DatabaseItemImpl_new ::
  "Uri \<Rightarrow> DatabaseContents option \<Rightarrow> FullDatabaseOptions \<Rightarrow> DatabaseItemImpl" where
  \<comment> \<open>the constructor: \<^verbatim>\<open>_error\<close> starts undefined, \<^verbatim>\<open>_contents\<close> is the argument\<close>
  "DatabaseItemImpl_new u c opts = \<lparr>databaseUri = u, error = None, contents = c, options = opts\<rparr>"

definition item_name :: "DatabaseItemImpl \<Rightarrow> string" where
  \<comment> \<open>the getter \<^verbatim>\<open>name\<close>; an empty display name is falsy\<close>
  "item_name it =
     (case displayName (options it) of
        Some (d # ds) \<Rightarrow> d # ds
      | _ \<Rightarrow> (case contents it of
                Some c \<Rightarrow> name c
              | None \<Rightarrow> path_basename (fsPath (databaseUri it))))"

definition sourceArchive :: "DatabaseItemImpl \<Rightarrow> Uri option" where
  "sourceArchive it =
     (if ignoreSourceArchive (options it) then None
      else (case contents it of None \<Rightarrow> None | Some c \<Rightarrow> sourceArchiveUri c))"

definition refresh ::
  "fsnode \<Rightarrow> DatabaseItemImpl \<Rightarrow> (js_error + unit) \<times> DatabaseItemImpl \<times> effect list" where
  "refresh fs it =
     (case resolveDatabaseContents fs (databaseUri it) of
        (Inr c, es) \<Rightarrow>
          (let it' = it\<lparr>contents := Some c, error := None\<rparr>
           in (Inr (), it', es @ [OnChanged it']))
      | (Inl e, es) \<Rightarrow>
          (let it' = it\<lparr>contents := None, error := Some e\<rparr>
           in (Inl e, it', es @ [OnChanged it'])))"

definition resolveSourceFile :: "DatabaseItemImpl \<Rightarrow> string option \<Rightarrow> Uri" where
  "resolveSourceFile it file =
     (case sourceArchive it of
        None \<Rightarrow>
          (case file of
             Some f \<Rightarrow> Uri_file f
           | None \<Rightarrow> databaseUri it)
      | Some sa \<Rightarrow>
          (case file of
             Some f \<Rightarrow>
               (let relativeFilePath = replace_first CHR '':'' CHR ''_'' (strip_leading_slashes f)
                in if scheme sa = zipArchiveScheme
                   then sa\<lparr>fragment := relativeFilePath\<rparr>
                   else
                     (let newPath = (if \<not> endsWith (path sa) ''/'' then path sa @ ''/'' else path sa)
                      in sa\<lparr>path := newPath @ relativeFilePath\<rparr>))
           | None \<Rightarrow> sa))"

definition getPersistedState :: "DatabaseItemImpl \<Rightarrow> PersistedDatabaseItem" where
  "getPersistedState it =
     \<lparr>uri = Uri_toString (databaseUri it),
      state_options = Some \<lparr>displayName_opt = displayName (options it),
                            ignoreSourceArchive_opt = Some (ignoreSourceArchive (options it))\<rparr>\<rparr>"

definition getExplorerUri :: "DatabaseItemImpl \<Rightarrow> Uri option" where
  "getExplorerUri it =
     (case sourceArchive it of
        None \<Rightarrow> None
      | Some sa \<Rightarrow>
          (if \<not> endsWith (fsPath sa) ''.zip'' then None
           else Some ((Uri_parse (zipArchiveScheme @ '':/''))\<lparr>fragment := fsPath sa\<rparr>)))"

definition belongsToExplorerUri :: "DatabaseItemImpl \<Rightarrow> Uri \<Rightarrow> bool" where
  "belongsToExplorerUri it u =
     (case getExplorerUri it of
        None \<Rightarrow> False
      | Some sourceArchiveUri' \<Rightarrow>
          scheme u = zipArchiveScheme \<and> fragment u = fsPath sourceArchiveUri')"


section \<open>The database manager\<close>

text \<open>
  The manager's items are objects that the list of items, the current-item pointer and
  the callers share by reference: the manager's state holds a store of the item objects
  it has created, and its list and pointer hold references into that store. The
  workspace state is the key-value store of the extension context; updating a key with
  \<^verbatim>\<open>undefined\<close> removes it.
\<close>

datatype stored = StoredString string | StoredList "PersistedDatabaseItem list"

record DatabaseManager =
  heap :: "nat \<Rightarrow> DatabaseItemImpl option"
  next_ref :: nat
  databaseItems :: "nat list"
  currentDatabaseItem :: "nat option"
  workspaceState :: "string \<Rightarrow> stored option"

definition DatabaseManager_new :: "(string \<Rightarrow> stored option) \<Rightarrow> DatabaseManager" where
  \<comment> \<open>the manager as constructed over a workspace state, before any item is loaded\<close>
  "DatabaseManager_new ws =
     \<lparr>heap = (\<lambda>r. None), next_ref = 0, databaseItems = [], currentDatabaseItem = None,
      workspaceState = ws\<rparr>"

definition allocate :: "DatabaseItemImpl \<Rightarrow> DatabaseManager \<Rightarrow> nat \<times> DatabaseManager" where
  \<comment> \<open>\<^verbatim>\<open>new DatabaseItemImpl(...)\<close>: a fresh reference\<close>
  "allocate it m = (next_ref m, m\<lparr>heap := (heap m)(next_ref m \<mapsto> it), next_ref := Suc (next_ref m)\<rparr>)"

definition updatePersistedCurrentDatabaseItem :: "DatabaseManager \<Rightarrow> DatabaseManager" where
  "updatePersistedCurrentDatabaseItem m =
     m\<lparr>workspaceState := (workspaceState m)
          (CURRENT_DB :=
             (case currentDatabaseItem m of
                None \<Rightarrow> None
              | Some r \<Rightarrow>
                  (case heap m r of
                     None \<Rightarrow> None
                   | Some it \<Rightarrow> Some (StoredString (Uri_toString (databaseUri it))))))\<rparr>"

definition updatePersistedDatabaseList :: "DatabaseManager \<Rightarrow> DatabaseManager" where
  "updatePersistedDatabaseList m =
     m\<lparr>workspaceState := (workspaceState m)
          (DB_LIST \<mapsto> StoredList (map getPersistedState (List.map_filter (heap m) (databaseItems m))))\<rparr>"

definition addDatabaseItem :: "nat \<Rightarrow> DatabaseManager \<Rightarrow> DatabaseManager \<times> effect list" where
  "addDatabaseItem r m =
     (let m1 = m\<lparr>databaseItems := databaseItems m @ [r]\<rparr>;
          m2 = updatePersistedDatabaseList m1
      in (m2, [DidChangeDatabaseItem None]))"

definition openDatabase ::
  "fsnode \<Rightarrow> Uri \<Rightarrow> DatabaseOptions option \<Rightarrow> DatabaseManager
     \<Rightarrow> (js_error + nat) \<times> DatabaseManager \<times> effect list" where
  "openDatabase fs u opts m =
     (case resolveDatabaseContents fs u of
        (Inl e, es) \<Rightarrow> (Inl e, m, es)
      | (Inr c, es) \<Rightarrow>
          (let realOptions =
                 (case opts of
                    Some ro \<Rightarrow> ro
                  | None \<Rightarrow> \<lparr>displayName_opt = None, ignoreSourceArchive_opt = None\<rparr>);
               isQLTestDatabase = (path_extname (fsPath u) = ''.testproj'');
               fullOptions =
                 \<lparr>displayName = displayName_opt realOptions,
                  ignoreSourceArchive =
                    (case ignoreSourceArchive_opt realOptions of
                       Some b \<Rightarrow> b
                     | None \<Rightarrow> isQLTestDatabase)\<rparr>;
               (databaseItem, m1) = allocate (DatabaseItemImpl_new u (Some c) fullOptions) m;
               (m2, es') = addDatabaseItem databaseItem m1
           in (Inr databaseItem, m2, es @ es')))"

definition createDatabaseItemFromPersistedState ::
  "PersistedDatabaseItem \<Rightarrow> DatabaseManager \<Rightarrow> nat \<times> DatabaseManager \<times> effect list" where
  "createDatabaseItemFromPersistedState state m =
     (let fullOptions =
            (case state_options state of
               None \<Rightarrow> \<lparr>displayName = None, ignoreSourceArchive = False\<rparr>
             | Some so \<Rightarrow>
                 \<lparr>displayName = displayName_opt so,
                  ignoreSourceArchive =
                    (case ignoreSourceArchive_opt so of Some b \<Rightarrow> b | None \<Rightarrow> False)\<rparr>);
          (item, m1) = allocate (DatabaseItemImpl_new (Uri_parse (uri state)) None fullOptions) m;
          (m2, es) = addDatabaseItem item m1
      in (item, m2, es))"

fun dispatch_onChanged :: "nat \<Rightarrow> effect \<Rightarrow> effect" where
  \<comment> \<open>the callback the manager gives every item: \<^verbatim>\<open>(item) => this._onDidChangeDatabaseItem.fire(item)\<close>\<close>
  "dispatch_onChanged r (OnChanged it) = DidChangeDatabaseItem (Some r)"
| "dispatch_onChanged r e = e"

definition refresh_item ::
  "fsnode \<Rightarrow> nat \<Rightarrow> DatabaseManager \<Rightarrow> (js_error + unit) \<times> DatabaseManager \<times> effect list" where
  \<comment> \<open>\<^verbatim>\<open>item.refresh()\<close> on an item of the store; a reference that was never allocated
      stands for no object, and nothing happens\<close>
  "refresh_item fs r m =
     (case heap m r of
        None \<Rightarrow> (Inr (), m, [])
      | Some it \<Rightarrow>
          (let (res, it', es) = refresh fs it
           in (res, m\<lparr>heap := (heap m)(r \<mapsto> it')\<rparr>, map (dispatch_onChanged r) es)))"

definition setCurrentDatabaseItem ::
  "fsnode \<Rightarrow> nat option \<Rightarrow> bool \<Rightarrow> DatabaseManager
     \<Rightarrow> (js_error + unit) \<times> DatabaseManager \<times> effect list" where
  "setCurrentDatabaseItem fs item skipRefresh m =
     (let (res, m1, es) =
            (case item of
               Some r \<Rightarrow> (if \<not> skipRefresh then refresh_item fs r m else (Inr (), m, []))
             | None \<Rightarrow> (Inr (), m, []))
      in case res of
           Inl e \<Rightarrow> (Inl e, m1, es)
         | Inr _ \<Rightarrow>
             (if currentDatabaseItem m1 \<noteq> item
              then (let m2 = m1\<lparr>currentDatabaseItem := item\<rparr>;
                        m3 = updatePersistedCurrentDatabaseItem m2
                    in (Inr (), m3, es @ [DidChangeCurrentDatabaseItem item]))
              else (Inr (), m1, es)))"

definition findDatabaseItem :: "Uri \<Rightarrow> DatabaseManager \<Rightarrow> nat option" where
  "findDatabaseItem u m =
     (let uriString = Uri_toString u
      in List.find
           (\<lambda>r. case heap m r of
                   None \<Rightarrow> False
                 | Some it \<Rightarrow> Uri_toString (databaseUri it) = uriString)
           (databaseItems m))"

fun findIndex :: "('a \<Rightarrow> bool) \<Rightarrow> 'a list \<Rightarrow> nat option" where
  \<comment> \<open>\<^verbatim>\<open>Array.prototype.findIndex\<close>; \<^verbatim>\<open>-1\<close> is \<open>None\<close>\<close>
  "findIndex P [] = None"
| "findIndex P (x # xs) = (if P x then Some 0 else map_option Suc (findIndex P xs))"

definition removeDatabaseItem :: "nat \<Rightarrow> DatabaseManager \<Rightarrow> DatabaseManager \<times> effect list" where
  "removeDatabaseItem item m =
     (let m1 = (if currentDatabaseItem m = Some item then m\<lparr>currentDatabaseItem := None\<rparr> else m);
          m2 = (case findIndex (\<lambda>searchItem. searchItem = item) (databaseItems m1) of
                  Some index \<Rightarrow>
                    m1\<lparr>databaseItems := take index (databaseItems m1) @ drop (Suc index) (databaseItems m1)\<rparr>
                | None \<Rightarrow> m1);
          m3 = updatePersistedDatabaseList m2
      in (m3, [DidChangeDatabaseItem None]))"


section \<open>Sequences of refreshes, and what counts as a change notification\<close>

fun refresh_all :: "fsnode list \<Rightarrow> DatabaseItemImpl \<Rightarrow> DatabaseItemImpl" where
  \<comment> \<open>one \<^verbatim>\<open>refresh()\<close> per element, each against the file system as it is at that call;
      a refresh that throws still leaves the item updated\<close>
  "refresh_all [] it = it"
| "refresh_all (fs # fss) it = refresh_all fss (fst (snd (refresh fs it)))"

fun is_notification :: "effect \<Rightarrow> bool" where
  \<comment> \<open>a change notification, as opposed to a probe or a message to the user\<close>
  "is_notification (OnChanged it) = True"
| "is_notification (DidChangeDatabaseItem r) = True"
| "is_notification (DidChangeCurrentDatabaseItem r) = True"
| "is_notification e = False"


section \<open>Example file systems\<close>

definition example_fs :: fsnode where
  \<comment> \<open>\<^verbatim>\<open>/db\<close>: a database with a zipped source archive; \<^verbatim>\<open>/dirdb\<close>: one with a source
      directory; \<^verbatim>\<open>/old\<close>: the dataset under \<^verbatim>\<open>working/\<close>; \<^verbatim>\<open>/raw\<close>: a bare dataset;
      \<^verbatim>\<open>/two\<close>: two dataset directories, the first with two schema files;
      \<^verbatim>\<open>/none\<close>: a dataset directory without a schema file\<close>
  "example_fs =
     Dir [(''db'', Dir [(''db-python'', Dir [(''semmlecode.python.dbscheme'', File)]),
                        (''src.zip'', File)]),
          (''dirdb'', Dir [(''db-cpp'', Dir [(''semmlecode.cpp.dbscheme'', File)]),
                           (''src'', Dir [])]),
          (''old'', Dir [(''working'', Dir [(''db-test'', Dir [(''test.dbscheme'', File)])])]),
          (''raw'', Dir [(''a.dbscheme'', File)]),
          (''two'', Dir [(''db-a'', Dir [(''x.dbscheme'', File), (''y.dbscheme'', File)]),
                         (''db-b'', Dir [])]),
          (''none'', Dir [(''db-a'', Dir [])])]"

definition two_schemes_fs :: fsnode where
  "two_schemes_fs =
     Dir [(''d'', Dir [(''db-a'', Dir [(''x.dbscheme'', File), (''y.dbscheme'', File)])])]"

definition three_schemes_fs :: fsnode where
  "three_schemes_fs =
     Dir [(''d'', Dir [(''db-a'', Dir [(''x.dbscheme'', File), (''y.dbscheme'', File),
                                        (''z.dbscheme'', File)])])]"

definition zip_contents :: DatabaseContents where
  \<comment> \<open>what resolving \<^verbatim>\<open>/db\<close> in \<open>example_fs\<close> returns\<close>
  "zip_contents =
     \<lparr>kind = Database, name = ''db'',
      datasetUri = Uri_file ''/db/db-python/'',
      sourceArchiveUri = Some ((Uri_file ''/db/src.zip'')\<lparr>scheme := zipArchiveScheme\<rparr>),
      dbSchemeUri = Some (Uri_file ''/db/db-python/semmlecode.python.dbscheme'')\<rparr>"

definition dir_contents :: DatabaseContents where
  \<comment> \<open>what resolving \<^verbatim>\<open>/dirdb\<close> in \<open>example_fs\<close> returns\<close>
  "dir_contents =
     \<lparr>kind = Database, name = ''dirdb'',
      datasetUri = Uri_file ''/dirdb/db-cpp/'',
      sourceArchiveUri = Some (Uri_file ''/dirdb/src''),
      dbSchemeUri = Some (Uri_file ''/dirdb/db-cpp/semmlecode.cpp.dbscheme'')\<rparr>"

definition default_options :: FullDatabaseOptions where
  \<comment> \<open>the options \<^verbatim>\<open>openDatabase\<close> computes when it is given none, for a location that
      is not a \<^verbatim>\<open>.testproj\<close>\<close>
  "default_options = \<lparr>displayName = None, ignoreSourceArchive = False\<rparr>"

definition zip_item :: DatabaseItemImpl where
  "zip_item = DatabaseItemImpl_new (Uri_file ''/db'') (Some zip_contents) default_options"

definition dir_item :: DatabaseItemImpl where
  "dir_item = DatabaseItemImpl_new (Uri_file ''/dirdb'') (Some dir_contents) default_options"


section \<open>What the patterns of the source match\<close>

text \<open>
  The three patterns that the source hands to \<^verbatim>\<open>glob\<close>, read off the entries of a directory:
  \<^verbatim>\<open>db-*/\<close> lists the subdirectories of the directory whose names start with \<^verbatim>\<open>db-\<close>,
  \<^verbatim>\<open>working/db-*/\<close> lists those of its subdirectory \<^verbatim>\<open>working\<close>, and \<^verbatim>\<open>*.dbscheme\<close> lists
  its entries whose names end in \<^verbatim>\<open>.dbscheme\<close> and do not start with a dot.
\<close>

lemma startsWith_length: "startsWith s p \<Longrightarrow> length p \<le> length s"
  by (metis startsWith_def length_take min.cobounded1)

lemma segment_matches_db: "segment_matches ''db-*'' nm = startsWith nm ''db-''"
proof (cases "startsWith nm ''db-''")
  case True
  then have len: "3 \<le> length nm" using startsWith_length [of nm "''db-''"] by simp
  then obtain c cs where nm: "nm = c # cs" by (cases nm) auto
  with True have "c = CHR ''d''" by (simp add: startsWith_def)
  with True nm len show ?thesis
    by (simp add: segment_matches_def startsWith_def endsWith_def)
next
  case False
  then show ?thesis
    by (simp add: segment_matches_def)
qed

lemma segment_matches_dbscheme:
  "segment_matches ''*.dbscheme'' nm = (\<not> startsWith nm ''.'' \<and> endsWith nm ''.dbscheme'')"
proof (cases "endsWith nm ''.dbscheme''")
  case True
  then have "9 \<le> length nm" by (simp add: endsWith_def)
  then have ne: "nm \<noteq> []" by auto
  from True ne \<open>9 \<le> length nm\<close> show ?thesis
    by (simp add: segment_matches_def startsWith_def)
next
  case False
  then show ?thesis
    by (simp add: segment_matches_def)
qed

lemma segment_matches_working: "segment_matches ''working'' nm = (nm = ''working'')"
  by (auto simp: segment_matches_def startsWith_def)

lemma glob_db_entries:
  "map (join_with ''/'') (glob_walk [''db-*'', []] (Dir es)) =
   map (\<lambda>e. fst e @ ''/'') (filter (\<lambda>e. snd e \<noteq> File \<and> startsWith (fst e) ''db-'') es)"
  by (induction es) (auto simp: segment_matches_db split: fsnode.splits)

lemma glob_dbscheme_entries:
  "map (join_with ''/'') (glob_walk [''*.dbscheme''] (Dir es)) =
   map fst (filter (\<lambda>e. \<not> startsWith (fst e) ''.'' \<and> endsWith (fst e) ''.dbscheme'') es)"
  by (induction es) (auto simp: segment_matches_dbscheme)

lemma glob_working_entries:
  "map (join_with ''/'') (glob_walk [''working'', ''db-*'', []] (Dir es)) =
   concat (map (\<lambda>e. if fst e = ''working''
                     then (case snd e of
                             File \<Rightarrow> []
                           | Dir ds \<Rightarrow>
                               map (\<lambda>d. ''working/'' @ fst d @ ''/'')
                                   (filter (\<lambda>d. snd d \<noteq> File \<and> startsWith (fst d) ''db-'') ds))
                     else []) es)"
proof -
  have inner:
    "map (join_with ''/'') (map ((#) ''working'') (glob_walk [''db-*'', []] n)) =
       (case n of
          File \<Rightarrow> []
        | Dir ds \<Rightarrow>
            map (\<lambda>d. ''working/'' @ fst d @ ''/'')
                (filter (\<lambda>d. snd d \<noteq> File \<and> startsWith (fst d) ''db-'') ds))" for n
  proof (cases n)
    case File
    then show ?thesis by simp
  next
    case (Dir ds)
    have "map (join_with ''/'') (map ((#) ''working'') (glob_walk [''db-*'', []] (Dir ds))) =
          map (\<lambda>d. ''working/'' @ fst d @ ''/'')
              (filter (\<lambda>d. snd d \<noteq> File \<and> startsWith (fst d) ''db-'') ds)"
      by (induction ds) (auto simp: segment_matches_db split: fsnode.splits)
    with Dir show ?thesis by simp
  qed
  show ?thesis
  proof (induction es)
    case Nil
    then show ?case by simp
  next
    case (Cons e es)
    obtain nm c where e: "e = (nm, c)" by (cases e)
    show ?case
      using Cons.IH inner [of c]
      by (simp add: e segment_matches_working)
  qed
qed

lemma glob_db_top:
  "stat fs dir = Some (Dir es) \<Longrightarrow>
   glob fs ''db-*/'' dir =
     map (\<lambda>e. fst e @ ''/'') (filter (\<lambda>e. snd e \<noteq> File \<and> startsWith (fst e) ''db-'') es)"
  using glob_db_entries [of es] by (simp add: glob_def)

lemma glob_dbscheme:
  "stat fs dir = Some (Dir es) \<Longrightarrow>
   glob fs ''*.dbscheme'' dir =
     map fst (filter (\<lambda>e. \<not> startsWith (fst e) ''.'' \<and> endsWith (fst e) ''.dbscheme'') es)"
  using glob_dbscheme_entries [of es] by (simp add: glob_def)

lemma glob_db_working:
  "stat fs dir = Some (Dir es) \<Longrightarrow>
   glob fs ''working/db-*/'' dir =
     concat (map (\<lambda>e. if fst e = ''working''
                       then (case snd e of
                               File \<Rightarrow> []
                             | Dir ds \<Rightarrow>
                                 map (\<lambda>d. ''working/'' @ fst d @ ''/'')
                                     (filter (\<lambda>d. snd d \<noteq> File \<and> startsWith (fst d) ''db-'') ds))
                       else []) es)"
  using glob_working_entries [of es] by (simp add: glob_def)


section \<open>Properties of the layout prober\<close>

text \<open>
  Claim C7. For a root that is a directory, \<^verbatim>\<open>findDataset\<close> globs \<^verbatim>\<open>db-*/\<close> under it first
  and, only when that finds nothing, \<^verbatim>\<open>working/db-*/\<close>; it throws when both find nothing;
  otherwise it returns the first match in enumeration order, with a warning (and no
  error) when there are several. The first pattern lists the subdirectories of the directory named
  \<^verbatim>\<open>db-*\<close>, the second those of its subdirectory \<^verbatim>\<open>working\<close>. In \<open>example_fs\<close>, \<^verbatim>\<open>/old\<close>
  has only \<^verbatim>\<open>working/db-test/\<close> and resolves through the second search, and \<^verbatim>\<open>/two\<close> has
  two dataset directories and resolves to the first.
\<close>

theorem findDataset_search_order:
  assumes "stat fs parentDirectory = Some (Dir es)"
  shows "findDataset fs parentDirectory =
     (let top = glob fs ''db-*/'' parentDirectory;
          old = glob fs ''working/db-*/'' parentDirectory;
          warning = (\<lambda>found. if length found > 1
                       then [ShowWarningMessage
                               (''Found multiple dataset directories in database, using ''
                                @ quoted (path_join parentDirectory (found ! 0)) @ ''.'')]
                       else [])
      in if top \<noteq> []
         then (Inr (Uri_file (path_join parentDirectory (top ! 0))),
               [Glob ''db-*/'' parentDirectory] @ warning top)
         else if old \<noteq> []
         then (Inr (Uri_file (path_join parentDirectory (old ! 0))),
               [Glob ''db-*/'' parentDirectory, Glob ''working/db-*/'' parentDirectory] @ warning old)
         else (Inl (InvalidDatabaseError
                      (quoted parentDirectory @ '' does not contain a dataset directory.'')),
               [Glob ''db-*/'' parentDirectory, Glob ''working/db-*/'' parentDirectory]))
   \<and> glob fs ''db-*/'' parentDirectory =
       map (\<lambda>e. fst e @ ''/'') (filter (\<lambda>e. snd e \<noteq> File \<and> startsWith (fst e) ''db-'') es)
   \<and> glob fs ''working/db-*/'' parentDirectory =
       concat (map (\<lambda>e. if fst e = ''working''
                         then (case snd e of
                                 File \<Rightarrow> []
                               | Dir ds \<Rightarrow>
                                   map (\<lambda>d. ''working/'' @ fst d @ ''/'')
                                       (filter (\<lambda>d. snd d \<noteq> File \<and> startsWith (fst d) ''db-'') ds))
                         else []) es)
   \<and> glob example_fs ''db-*/'' ''/old'' = []
   \<and> fst (findDataset example_fs ''/old'') = Inr (Uri_file ''/old/working/db-test/'')
   \<and> map_sum id datasetUri (fst (resolveDatabaseContents example_fs (Uri_file ''/old'')))
       = Inr (Uri_file ''/old/working/db-test/'')
   \<and> glob example_fs ''db-*/'' ''/two'' = [''db-a/'', ''db-b/'']
   \<and> findDataset example_fs ''/two'' =
       (Inr (Uri_file ''/two/db-a/''),
        [Glob ''db-*/'' ''/two'',
         ShowWarningMessage (''Found multiple dataset directories in database, using ''
                             @ quoted ''/two/db-a/'' @ ''.'')])"
proof -
  have general: "findDataset fs parentDirectory =
     (let top = glob fs ''db-*/'' parentDirectory;
          old = glob fs ''working/db-*/'' parentDirectory;
          warning = (\<lambda>found. if length found > 1
                       then [ShowWarningMessage
                               (''Found multiple dataset directories in database, using ''
                                @ quoted (path_join parentDirectory (found ! 0)) @ ''.'')]
                       else [])
      in if top \<noteq> []
         then (Inr (Uri_file (path_join parentDirectory (top ! 0))),
               [Glob ''db-*/'' parentDirectory] @ warning top)
         else if old \<noteq> []
         then (Inr (Uri_file (path_join parentDirectory (old ! 0))),
               [Glob ''db-*/'' parentDirectory, Glob ''working/db-*/'' parentDirectory] @ warning old)
         else (Inl (InvalidDatabaseError
                      (quoted parentDirectory @ '' does not contain a dataset directory.'')),
               [Glob ''db-*/'' parentDirectory, Glob ''working/db-*/'' parentDirectory]))"
    by (simp add: findDataset_def Let_def)
  have e1: "glob example_fs ''db-*/'' ''/old'' = []" by code_simp
  have e2: "fst (findDataset example_fs ''/old'') = Inr (Uri_file ''/old/working/db-test/'')"
    by code_simp
  have e3: "map_sum id datasetUri (fst (resolveDatabaseContents example_fs (Uri_file ''/old'')))
       = Inr (Uri_file ''/old/working/db-test/'')" by code_simp
  have e4: "glob example_fs ''db-*/'' ''/two'' = [''db-a/'', ''db-b/'']" by code_simp
  have e5: "findDataset example_fs ''/two'' =
       (Inr (Uri_file ''/two/db-a/''),
        [Glob ''db-*/'' ''/two'',
         ShowWarningMessage (''Found multiple dataset directories in database, using ''
                             @ quoted ''/two/db-a/'' @ ''.'')])" by code_simp
  show ?thesis
    using general glob_db_top [OF assms] glob_db_working [OF assms] e1 e2 e3 e4 e5
    by blast
qed

text \<open>
  The theorem at three directories of \<open>example_fs\<close>: \<^verbatim>\<open>/two\<close> (two dataset directories: the
  first, with the warning), \<^verbatim>\<open>/old\<close> (none at the top, one under \<^verbatim>\<open>working\<close>) and \<^verbatim>\<open>/raw\<close>
  (none in either place: the error, after both searches).
\<close>

theorem findDataset_search_order_witness:
  "stat example_fs ''/two'' =
     Some (Dir [(''db-a'', Dir [(''x.dbscheme'', File), (''y.dbscheme'', File)]), (''db-b'', Dir [])])
   \<and> glob example_fs ''db-*/'' ''/two'' = [''db-a/'', ''db-b/'']
   \<and> findDataset example_fs ''/two'' =
       (Inr (Uri_file ''/two/db-a/''),
        [Glob ''db-*/'' ''/two'',
         ShowWarningMessage (''Found multiple dataset directories in database, using ''
                             @ quoted ''/two/db-a/'' @ ''.'')])
   \<and> stat example_fs ''/old'' =
       Some (Dir [(''working'', Dir [(''db-test'', Dir [(''test.dbscheme'', File)])])])
   \<and> glob example_fs ''db-*/'' ''/old'' = []
   \<and> glob example_fs ''working/db-*/'' ''/old'' = [''working/db-test/'']
   \<and> findDataset example_fs ''/old'' =
       (Inr (Uri_file ''/old/working/db-test/''),
        [Glob ''db-*/'' ''/old'', Glob ''working/db-*/'' ''/old''])
   \<and> stat example_fs ''/raw'' = Some (Dir [(''a.dbscheme'', File)])
   \<and> glob example_fs ''db-*/'' ''/raw'' = []
   \<and> glob example_fs ''working/db-*/'' ''/raw'' = []
   \<and> findDataset example_fs ''/raw'' =
       (Inl (InvalidDatabaseError (quoted ''/raw'' @ '' does not contain a dataset directory.'')),
        [Glob ''db-*/'' ''/raw'', Glob ''working/db-*/'' ''/raw''])"
proof -
  have two: "stat example_fs ''/two'' =
     Some (Dir [(''db-a'', Dir [(''x.dbscheme'', File), (''y.dbscheme'', File)]), (''db-b'', Dir [])])"
    by code_simp
  have old: "stat example_fs ''/old'' =
     Some (Dir [(''working'', Dir [(''db-test'', Dir [(''test.dbscheme'', File)])])])"
    by code_simp
  have raw: "stat example_fs ''/raw'' = Some (Dir [(''a.dbscheme'', File)])"
    by code_simp
  note at_two = findDataset_search_order [OF two]
  note at_old = findDataset_search_order [OF old]
  note at_raw = findDataset_search_order [OF raw]
  have two_top: "glob example_fs ''db-*/'' ''/two'' = [''db-a/'', ''db-b/'']"
    by (subst at_two [THEN conjunct2, THEN conjunct1]) code_simp
  have two_found: "findDataset example_fs ''/two'' =
       (Inr (Uri_file ''/two/db-a/''),
        [Glob ''db-*/'' ''/two'',
         ShowWarningMessage (''Found multiple dataset directories in database, using ''
                             @ quoted ''/two/db-a/'' @ ''.'')])"
    by (subst at_two [THEN conjunct1]) code_simp
  have old_top: "glob example_fs ''db-*/'' ''/old'' = []"
    by (subst at_old [THEN conjunct2, THEN conjunct1]) code_simp
  have old_working: "glob example_fs ''working/db-*/'' ''/old'' = [''working/db-test/'']"
    by (subst at_old [THEN conjunct2, THEN conjunct2, THEN conjunct1]) code_simp
  have old_found: "findDataset example_fs ''/old'' =
       (Inr (Uri_file ''/old/working/db-test/''),
        [Glob ''db-*/'' ''/old'', Glob ''working/db-*/'' ''/old''])"
    by (subst at_old [THEN conjunct1]) code_simp
  have raw_top: "glob example_fs ''db-*/'' ''/raw'' = []"
    by (subst at_raw [THEN conjunct2, THEN conjunct1]) code_simp
  have raw_working: "glob example_fs ''working/db-*/'' ''/raw'' = []"
    by (subst at_raw [THEN conjunct2, THEN conjunct2, THEN conjunct1]) code_simp
  have raw_found: "findDataset example_fs ''/raw'' =
       (Inl (InvalidDatabaseError (quoted ''/raw'' @ '' does not contain a dataset directory.'')),
        [Glob ''db-*/'' ''/raw'', Glob ''working/db-*/'' ''/raw''])"
    by (subst at_raw [THEN conjunct1]) code_simp
  show ?thesis
    using two two_top two_found old old_top old_working old_found raw raw_top raw_working raw_found
    by blast
qed


text \<open>
  Claim C8. \<^verbatim>\<open>findSourceArchive\<close> probes \<^verbatim>\<open>src\<close>, \<^verbatim>\<open>src.zip\<close>, \<^verbatim>\<open>output/src_archive\<close> and
  \<^verbatim>\<open>output/src_archive.zip\<close> under the database path, in this order, and stops at the first
  that exists; a \<^verbatim>\<open>.zip\<close> result carries the archive scheme; when none exists the result
  is absent (the function has no error result), with an information message unless
  silenced.
\<close>

theorem findSourceArchive_probe_order:
  "findSourceArchive fs databasePath silent =
     (let src = path_join databasePath ''src'';
          srcZip = src @ ''.zip'';
          archive = path_join databasePath ''output/src_archive'';
          archiveZip = archive @ ''.zip''
      in if pathExists fs src
         then (Some (Uri_file src), [PathExists src])
         else if pathExists fs srcZip
         then (Some ((Uri_file srcZip)\<lparr>scheme := zipArchiveScheme\<rparr>),
               [PathExists src, PathExists srcZip])
         else if pathExists fs archive
         then (Some (Uri_file archive), [PathExists src, PathExists srcZip, PathExists archive])
         else if pathExists fs archiveZip
         then (Some ((Uri_file archiveZip)\<lparr>scheme := zipArchiveScheme\<rparr>),
               [PathExists src, PathExists srcZip, PathExists archive, PathExists archiveZip])
         else (None,
               [PathExists src, PathExists srcZip, PathExists archive, PathExists archiveZip]
               @ (if silent then []
                  else [ShowInformationMessage
                          (''Could not find source archive for database '' @ quoted databasePath
                           @ ''. Assuming paths are absolute.'')])))
   \<and> [path_join ''/db'' ''src'', path_join ''/db'' ''src'' @ ''.zip'',
       path_join ''/db'' ''output/src_archive'', path_join ''/db'' ''output/src_archive'' @ ''.zip'']
      = [''/db/src'', ''/db/src.zip'', ''/db/output/src_archive'', ''/db/output/src_archive.zip'']
   \<and> fst (findSourceArchive example_fs ''/dirdb'' silent) = Some (Uri_file ''/dirdb/src'')
   \<and> fst (findSourceArchive example_fs ''/db'' silent)
       = Some ((Uri_file ''/db/src.zip'')\<lparr>scheme := zipArchiveScheme\<rparr>)
   \<and> fst (findSourceArchive example_fs ''/raw'' silent) = None"
proof -
  have examples:
    "fst (findSourceArchive example_fs ''/dirdb'' silent) = Some (Uri_file ''/dirdb/src'')"
    "fst (findSourceArchive example_fs ''/db'' silent)
       = Some ((Uri_file ''/db/src.zip'')\<lparr>scheme := zipArchiveScheme\<rparr>)"
    "fst (findSourceArchive example_fs ''/raw'' silent) = None"
    by (cases silent; code_simp)+
  have paths: "[path_join ''/db'' ''src'', path_join ''/db'' ''src'' @ ''.zip'',
       path_join ''/db'' ''output/src_archive'', path_join ''/db'' ''output/src_archive'' @ ''.zip'']
      = [''/db/src'', ''/db/src.zip'', ''/db/output/src_archive'', ''/db/output/src_archive.zip'']"
    by code_simp
  have general: "findSourceArchive fs databasePath silent =
     (let src = path_join databasePath ''src'';
          srcZip = src @ ''.zip'';
          archive = path_join databasePath ''output/src_archive'';
          archiveZip = archive @ ''.zip''
      in if pathExists fs src
         then (Some (Uri_file src), [PathExists src])
         else if pathExists fs srcZip
         then (Some ((Uri_file srcZip)\<lparr>scheme := zipArchiveScheme\<rparr>),
               [PathExists src, PathExists srcZip])
         else if pathExists fs archive
         then (Some (Uri_file archive), [PathExists src, PathExists srcZip, PathExists archive])
         else if pathExists fs archiveZip
         then (Some ((Uri_file archiveZip)\<lparr>scheme := zipArchiveScheme\<rparr>),
               [PathExists src, PathExists srcZip, PathExists archive, PathExists archiveZip])
         else (None,
               [PathExists src, PathExists srcZip, PathExists archive, PathExists archiveZip]
               @ (if silent then []
                  else [ShowInformationMessage
                          (''Could not find source archive for database '' @ quoted databasePath
                           @ ''. Assuming paths are absolute.'')])))"
    by (simp add: findSourceArchive_def Let_def)
  show ?thesis
    using general paths examples by blast
qed


section \<open>Properties of the resolver\<close>

lemma resolveDatabase_never_undefined: "fst (resolveDatabase fs p) \<noteq> Inr None"
  by (simp add: resolveDatabase_def Let_def split: prod.splits sum.splits)

lemma findDataset_none:
  "stat fs p = Some (Dir es) \<Longrightarrow>
   glob fs ''db-*/'' p = [] \<Longrightarrow> glob fs ''working/db-*/'' p = [] \<Longrightarrow>
   fst (findDataset fs p) = Inl (InvalidDatabaseError (quoted p @ '' does not contain a dataset directory.''))"
  by (simp add: findDataset_def)

lemma resolveDatabaseContents_no_dataset:
  assumes "scheme u = ''file''" and "stat fs (fsPath u) = Some (Dir es)"
    and "glob fs ''db-*/'' (fsPath u) = []" and "glob fs ''working/db-*/'' (fsPath u) = []"
  shows "fst (resolveDatabaseContents fs u) =
         Inl (InvalidDatabaseError (quoted (fsPath u) @ '' does not contain a dataset directory.''))"
  using assms findDataset_none [of fs "fsPath u" es]
  by (auto simp: resolveDatabaseContents_def resolveDatabase_def pathExists_def Let_def
           split: prod.splits sum.splits)

text \<open>
  Claim C1 (the code departs from it). \<^verbatim>\<open>/raw\<close> in \<open>example_fs\<close> exists, has no \<^verbatim>\<open>db-*\<close>
  directory under it or under \<^verbatim>\<open>working\<close>, and holds a schema file; resolving it throws
  the error of the dataset search. \<^verbatim>\<open>findDataset\<close> throws instead of returning nothing, so
  \<^verbatim>\<open>resolveDatabase\<close> never returns \<^verbatim>\<open>undefined\<close> (\<open>resolveDatabase_never_undefined\<close>) and the
  fallback to \<^verbatim>\<open>resolveRawDataset\<close> is never taken, for any directory
  (\<open>resolveDatabaseContents_no_dataset\<close>).
\<close>

theorem raw_dataset_fallback_unreachable:
  "pathExists example_fs ''/raw''
   \<and> glob example_fs ''db-*/'' ''/raw'' = []
   \<and> glob example_fs ''working/db-*/'' ''/raw'' = []
   \<and> glob example_fs ''*.dbscheme'' ''/raw'' = [''a.dbscheme'']
   \<and> fst (resolveDatabaseContents example_fs (Uri_file ''/raw'')) =
       Inl (InvalidDatabaseError (quoted ''/raw'' @ '' does not contain a dataset directory.''))"
  by code_simp


text \<open>
  Claim C4, as the code has it. A resolution that reaches the schema step (one whose
  dataset search succeeded) throws an \<^verbatim>\<open>InvalidDatabaseError\<close> when the dataset directory
  has no schema file or more than one; the message names the database path and the
  dataset path and tells none from several, without the count. With exactly one schema
  file it returns the contents with \<^verbatim>\<open>dbSchemeUri\<close> set to that file.
\<close>

theorem resolveDatabaseContents_schema_step:
  assumes "scheme u = ''file''" and "pathExists fs (fsPath u)"
    and "fst (resolveDatabase fs (fsPath u)) = Inr (Some c)"
  shows "fst (resolveDatabaseContents fs u) =
     (let dbPath = fsPath (datasetUri c);
          dbSchemeFiles = glob fs ''*.dbscheme'' dbPath
      in if dbSchemeFiles = []
         then Inl (InvalidDatabaseError
                     (''Database '' @ quoted (fsPath u) @ '' does not contain a QL dbscheme under ''
                      @ quoted dbPath @ ''.''))
         else if length dbSchemeFiles > 1
         then Inl (InvalidDatabaseError
                     (''Database '' @ quoted (fsPath u) @ '' contains multiple QL dbschemes under ''
                      @ quoted dbPath @ ''.''))
         else Inr (c\<lparr>dbSchemeUri := Some (Uri_file (path_resolve dbPath (dbSchemeFiles ! 0)))\<rparr>))"
  using assms
  by (cases "resolveDatabase fs (fsPath u)")
     (simp add: resolveDatabaseContents_def getDbSchemeFiles_def Let_def)

theorem resolveDatabaseContents_schema_step_witness:
  "scheme (Uri_file ''/two'') = ''file'' \<and> pathExists example_fs (fsPath (Uri_file ''/two''))
   \<and> glob example_fs ''*.dbscheme'' ''/two/db-a/'' = [''x.dbscheme'', ''y.dbscheme'']
   \<and> fst (resolveDatabaseContents example_fs (Uri_file ''/two'')) =
       Inl (InvalidDatabaseError
              (''Database '' @ quoted ''/two'' @ '' contains multiple QL dbschemes under ''
               @ quoted ''/two/db-a/'' @ ''.''))
   \<and> scheme (Uri_file ''/none'') = ''file'' \<and> pathExists example_fs (fsPath (Uri_file ''/none''))
   \<and> glob example_fs ''*.dbscheme'' ''/none/db-a/'' = []
   \<and> fst (resolveDatabaseContents example_fs (Uri_file ''/none'')) =
       Inl (InvalidDatabaseError
              (''Database '' @ quoted ''/none'' @ '' does not contain a QL dbscheme under ''
               @ quoted ''/none/db-a/'' @ ''.''))
   \<and> scheme (Uri_file ''/db'') = ''file'' \<and> pathExists example_fs (fsPath (Uri_file ''/db''))
   \<and> glob example_fs ''*.dbscheme'' ''/db/db-python/'' = [''semmlecode.python.dbscheme'']
   \<and> fst (resolveDatabaseContents example_fs (Uri_file ''/db'')) = Inr zip_contents
   \<and> dbSchemeUri zip_contents = Some (Uri_file ''/db/db-python/semmlecode.python.dbscheme'')"
proof -
  let ?two = "\<lparr>kind = Database, name = ''two'', datasetUri = Uri_file ''/two/db-a/'',
               sourceArchiveUri = None, dbSchemeUri = None\<rparr>"
  let ?none = "\<lparr>kind = Database, name = ''none'', datasetUri = Uri_file ''/none/db-a/'',
               sourceArchiveUri = None, dbSchemeUri = None\<rparr>"
  let ?db = "zip_contents\<lparr>dbSchemeUri := None\<rparr>"
  have a1: "scheme (Uri_file ''/two'') = ''file''" by code_simp
  have a2: "pathExists example_fs (fsPath (Uri_file ''/two''))" by code_simp
  have a3: "fst (resolveDatabase example_fs (fsPath (Uri_file ''/two''))) = Inr (Some ?two)" by code_simp
  have a4: "glob example_fs ''*.dbscheme'' ''/two/db-a/'' = [''x.dbscheme'', ''y.dbscheme'']" by code_simp
  have b1: "scheme (Uri_file ''/none'') = ''file''" by code_simp
  have b2: "pathExists example_fs (fsPath (Uri_file ''/none''))" by code_simp
  have b3: "fst (resolveDatabase example_fs (fsPath (Uri_file ''/none''))) = Inr (Some ?none)" by code_simp
  have b4: "glob example_fs ''*.dbscheme'' ''/none/db-a/'' = []" by code_simp
  have c1: "scheme (Uri_file ''/db'') = ''file''" by code_simp
  have c2: "pathExists example_fs (fsPath (Uri_file ''/db''))" by code_simp
  have c3: "fst (resolveDatabase example_fs (fsPath (Uri_file ''/db''))) = Inr (Some ?db)" by code_simp
  have c4: "glob example_fs ''*.dbscheme'' ''/db/db-python/'' = [''semmlecode.python.dbscheme'']" by code_simp
  have c7: "dbSchemeUri zip_contents = Some (Uri_file ''/db/db-python/semmlecode.python.dbscheme'')"
    by code_simp
  have two: "fst (resolveDatabaseContents example_fs (Uri_file ''/two'')) =
       Inl (InvalidDatabaseError
              (''Database '' @ quoted ''/two'' @ '' contains multiple QL dbschemes under ''
               @ quoted ''/two/db-a/'' @ ''.''))"
    by (subst resolveDatabaseContents_schema_step [OF a1 a2 a3]) code_simp
  have none: "fst (resolveDatabaseContents example_fs (Uri_file ''/none'')) =
       Inl (InvalidDatabaseError
              (''Database '' @ quoted ''/none'' @ '' does not contain a QL dbscheme under ''
               @ quoted ''/none/db-a/'' @ ''.''))"
    by (subst resolveDatabaseContents_schema_step [OF b1 b2 b3]) code_simp
  have db: "fst (resolveDatabaseContents example_fs (Uri_file ''/db'')) = Inr zip_contents"
    by (subst resolveDatabaseContents_schema_step [OF c1 c2 c3]) code_simp
  show ?thesis
    using a1 a2 a4 two b1 b2 b4 none c1 c2 c4 db c7 by blast
qed


text \<open>
  The claim as stated fails: a dataset directory with two schema files and one with three
  give the same message, which holds no digit, so the message does not name the count.
\<close>

theorem schema_count_not_in_message_counterexample:
  "length (glob two_schemes_fs ''*.dbscheme'' ''/d/db-a/'') = 2
   \<and> length (glob three_schemes_fs ''*.dbscheme'' ''/d/db-a/'') = 3
   \<and> fst (resolveDatabaseContents two_schemes_fs (Uri_file ''/d'')) =
       Inl (InvalidDatabaseError
              (''Database '' @ quoted ''/d'' @ '' contains multiple QL dbschemes under ''
               @ quoted ''/d/db-a/'' @ ''.''))
   \<and> fst (resolveDatabaseContents three_schemes_fs (Uri_file ''/d'')) =
       Inl (InvalidDatabaseError
              (''Database '' @ quoted ''/d'' @ '' contains multiple QL dbschemes under ''
               @ quoted ''/d/db-a/'' @ ''.''))
   \<and> filter (\<lambda>ch. ch \<in> set ''0123456789'')
        (''Database '' @ quoted ''/d'' @ '' contains multiple QL dbschemes under ''
         @ quoted ''/d/db-a/'' @ ''.'') = []"
  by code_simp


section \<open>Properties of database items\<close>

lemma findDataset_no_notification: "filter is_notification (snd (findDataset fs p)) = []"
  by (simp add: findDataset_def Let_def split: prod.splits)

lemma findSourceArchive_loop_no_notification:
  "filter is_notification (snd (findSourceArchive_loop fs p rs)) = []"
  by (induction rs) (auto simp: Let_def split: prod.splits)

lemma findSourceArchive_no_notification: "filter is_notification (snd (findSourceArchive fs p silent)) = []"
  using findSourceArchive_loop_no_notification [of fs p "[''src'', ''output/src_archive'']"]
  by (auto simp: findSourceArchive_def split: prod.splits option.splits)

lemma resolveDatabase_no_notification: "filter is_notification (snd (resolveDatabase fs p)) = []"
  using findDataset_no_notification [of fs p] findSourceArchive_no_notification [of fs p False]
  by (auto simp: resolveDatabase_def Let_def split: prod.splits sum.splits)

lemma resolveRawDataset_no_notification: "filter is_notification (snd (resolveRawDataset fs p)) = []"
  by (simp add: resolveRawDataset_def getDbSchemeFiles_def)

lemma resolveDatabaseContents_no_notification:
  "filter is_notification (snd (resolveDatabaseContents fs u)) = []"
  using resolveDatabase_no_notification [of fs "fsPath u"] resolveRawDataset_no_notification [of fs "fsPath u"]
  by (auto simp: resolveDatabaseContents_def getDbSchemeFiles_def Let_def
           split: prod.splits sum.splits option.splits)

lemma refresh_unfold:
  "refresh fs it =
     (case fst (resolveDatabaseContents fs (databaseUri it)) of
        Inr c \<Rightarrow> (Inr (), it\<lparr>contents := Some c, error := None\<rparr>,
                  snd (resolveDatabaseContents fs (databaseUri it)) @ [OnChanged (it\<lparr>contents := Some c, error := None\<rparr>)])
      | Inl e \<Rightarrow> (Inl e, it\<lparr>contents := None, error := Some e\<rparr>,
                  snd (resolveDatabaseContents fs (databaseUri it)) @ [OnChanged (it\<lparr>contents := None, error := Some e\<rparr>)]))"
  by (simp add: refresh_def Let_def split: prod.splits sum.splits)

lemma refresh_notifies_once:
  "filter is_notification (snd (snd (refresh fs it))) = [OnChanged (fst (snd (refresh fs it)))]"
  by (simp add: refresh_unfold resolveDatabaseContents_no_notification split: sum.splits)

lemma refresh_notifies_last:
  "last (snd (snd (refresh fs it))) = OnChanged (fst (snd (refresh fs it)))"
  by (simp add: refresh_unfold split: sum.splits)

lemma refresh_databaseUri: "databaseUri (fst (snd (refresh fs it))) = databaseUri it"
  by (simp add: refresh_unfold split: sum.splits)

lemma refresh_contents:
  "contents (fst (snd (refresh fs it))) =
     (case fst (resolveDatabaseContents fs (databaseUri it)) of Inr c \<Rightarrow> Some c | Inl e \<Rightarrow> None)"
  by (simp add: refresh_unfold split: sum.splits)

lemma refresh_exclusive:
  "contents (fst (snd (refresh fs it))) = None \<or> error (fst (snd (refresh fs it))) = None"
  by (simp add: refresh_unfold split: sum.splits)

lemma refresh_all_exclusive:
  "contents it = None \<or> error it = None \<Longrightarrow>
   contents (refresh_all fss it) = None \<or> error (refresh_all fss it) = None"
proof (induction fss arbitrary: it)
  case Nil
  then show ?case by simp
next
  case (Cons fs fss)
  show ?case
    using Cons.IH [OF refresh_exclusive [of fs it]] by simp
qed

text \<open>
  Claim C9. A refresh that resolves replaces the cached contents and clears the cached
  error; one that fails clears the contents, stores the error and throws that same error.
  Either way the only change notification of the call is one call of the item's
  \<^verbatim>\<open>onChanged\<close> callback, made last and with the item as updated, so that two refreshes in
  a row notify exactly twice; and two refreshes against the same file system cache the
  same contents.
\<close>

theorem refresh_outcomes:
  "(case fst (resolveDatabaseContents fs (databaseUri it)) of
      Inr c \<Rightarrow> fst (refresh fs it) = Inr ()
               \<and> fst (snd (refresh fs it)) = it\<lparr>contents := Some c, error := None\<rparr>
    | Inl e \<Rightarrow> fst (refresh fs it) = Inl e
               \<and> fst (snd (refresh fs it)) = it\<lparr>contents := None, error := Some e\<rparr>)
   \<and> filter is_notification (snd (snd (refresh fs it))) = [OnChanged (fst (snd (refresh fs it)))]
   \<and> last (snd (snd (refresh fs it))) = OnChanged (fst (snd (refresh fs it)))
   \<and> length (filter is_notification
               (snd (snd (refresh fs it)) @ snd (snd (refresh fs' (fst (snd (refresh fs it))))))) = 2
   \<and> contents (refresh_all [fs, fs] it) = contents (refresh_all [fs] it)"
proof -
  have outcome:
    "case fst (resolveDatabaseContents fs (databaseUri it)) of
       Inr c \<Rightarrow> fst (refresh fs it) = Inr ()
                \<and> fst (snd (refresh fs it)) = it\<lparr>contents := Some c, error := None\<rparr>
     | Inl e \<Rightarrow> fst (refresh fs it) = Inl e
                \<and> fst (snd (refresh fs it)) = it\<lparr>contents := None, error := Some e\<rparr>"
    by (simp add: refresh_unfold split: sum.splits)
  have twice: "length (filter is_notification
                 (snd (snd (refresh fs it)) @ snd (snd (refresh fs' (fst (snd (refresh fs it))))))) = 2"
    by (simp add: refresh_notifies_once)
  have same: "contents (refresh_all [fs, fs] it) = contents (refresh_all [fs] it)"
    by (simp add: refresh_contents refresh_databaseUri)
  show ?thesis
    using outcome twice same refresh_notifies_once [of fs it] refresh_notifies_last [of fs it]
    by blast
qed

text \<open>
  Claim C10. An item as constructed (with contents resolved by \<^verbatim>\<open>openDatabase\<close>, or
  without contents when rebuilt from the persisted state) and then refreshed any number
  of times, against any file systems, never holds contents and an error at once.
\<close>

theorem contents_error_exclusive:
  "contents (refresh_all fss (DatabaseItemImpl_new u c opts)) = None
   \<or> error (refresh_all fss (DatabaseItemImpl_new u c opts)) = None"
  by (rule refresh_all_exclusive) (simp add: DatabaseItemImpl_new_def)

lemma replace_first_single:
  "count_list s a \<le> 1 \<Longrightarrow> replace_first a b s = map (\<lambda>c. if c = a then b else c) s"
proof (induction s)
  case Nil
  then show ?case by simp
next
  case (Cons c cs)
  show ?case
  proof (cases "c = a")
    case True
    with Cons.prems have "count_list cs a = 0" by simp
    then have "a \<notin> set cs" by (simp add: count_list_0_iff)
    then have "map (\<lambda>c. if c = a then b else c) cs = cs"
      by (induction cs) auto
    with True show ?thesis by simp
  next
    case False
    with Cons show ?thesis by simp
  qed
qed

lemma strip_leading_slashes_no_slash:
  "strip_leading_slashes f = [] \<or> hd (strip_leading_slashes f) \<noteq> CHR ''/''"
  unfolding strip_leading_slashes_def
  by (metis (mono_tags, lifting) hd_dropWhile)

lemma resolveSourceFile_zip:
  "sourceArchive it = Some sa \<Longrightarrow> scheme sa = zipArchiveScheme \<Longrightarrow>
   resolveSourceFile it (Some f) =
     sa\<lparr>fragment := replace_first CHR '':'' CHR ''_'' (strip_leading_slashes f)\<rparr>"
  by (simp add: resolveSourceFile_def)

lemma resolveSourceFile_directory:
  "sourceArchive it = Some sa \<Longrightarrow> scheme sa \<noteq> zipArchiveScheme \<Longrightarrow>
   path (resolveSourceFile it (Some f)) =
     (if endsWith (path sa) ''/'' then path sa else path sa @ ''/'')
     @ replace_first CHR '':'' CHR ''_'' (strip_leading_slashes f)"
  by (simp add: resolveSourceFile_def)

lemma resolveSourceFile_examples:
  "fragment (resolveSourceFile zip_item (Some ''a:b.py'')) = ''a_b.py''"
  "path (resolveSourceFile dir_item (Some ''/a/b.py'')) = ''/dirdb/src/a/b.py''"
  by code_simp+


text \<open>
  Claim C5 (the code departs from it). \<^verbatim>\<open>resolveSourceFile\<close> strips the leading slashes and
  then calls \<^verbatim>\<open>replace(':', '_')\<close>, which replaces the first colon only: a name with two
  colons keeps the second, for an archive-backed source and for a directory-backed one.
  With at most one colon the result is the one the claim describes
  (\<open>replace_first_single\<close>, \<open>resolveSourceFile_examples\<close>).
\<close>

theorem resolveSourceFile_replaces_first_colon_only:
  "fst (resolveDatabaseContents example_fs (Uri_file ''/db'')) = Inr zip_contents
   \<and> fragment (resolveSourceFile zip_item (Some ''a:b:c.py'')) = ''a_b:c.py''
   \<and> fst (resolveDatabaseContents example_fs (Uri_file ''/dirdb'')) = Inr dir_contents
   \<and> path (resolveSourceFile dir_item (Some ''/a:b:c.py'')) = ''/dirdb/src/a_b:c.py''"
  by code_simp

lemma explorer_root_path: "Uri_parse (zipArchiveScheme @ '':/'') =
  \<lparr>scheme = zipArchiveScheme, authority = [], path = ''/'', query = [], fragment = []\<rparr>"
  by code_simp

lemma getExplorerUri_fsPath: "getExplorerUri it = Some eu \<Longrightarrow> fsPath eu = ''/''"
  by (auto simp: getExplorerUri_def explorer_root_path fsPath_def split: option.splits if_splits)

lemma belongsToExplorerUri_only_root:
  "belongsToExplorerUri it u \<Longrightarrow> fragment u = ''/''"
  by (auto simp: belongsToExplorerUri_def getExplorerUri_fsPath split: option.splits)


text \<open>
  Claim C6 (the code departs from it). \<^verbatim>\<open>belongsToExplorerUri\<close> compares the candidate's
  fragment with the \<^verbatim>\<open>fsPath\<close> of the explorer URI, whose path is the root \<^verbatim>\<open>/\<close>, and not
  with the archive path that the explorer URI carries as its fragment. For the item of
  \<^verbatim>\<open>/db\<close>, whose archive is \<^verbatim>\<open>/db/src.zip\<close>, the candidate with that fragment is rejected and
  the candidate with fragment \<^verbatim>\<open>/\<close> is accepted.
\<close>

theorem belongsToExplorerUri_compares_with_root_path:
  "fst (resolveDatabaseContents example_fs (Uri_file ''/db'')) = Inr zip_contents
   \<and> map_option fsPath (sourceArchive zip_item) = Some ''/db/src.zip''
   \<and> getExplorerUri zip_item =
       Some \<lparr>scheme = zipArchiveScheme, authority = [], path = ''/'', query = [],
             fragment = ''/db/src.zip''\<rparr>
   \<and> belongsToExplorerUri zip_item
        \<lparr>scheme = zipArchiveScheme, authority = [], path = ''/'', query = [],
         fragment = ''/db/src.zip''\<rparr> = False
   \<and> belongsToExplorerUri zip_item
        \<lparr>scheme = zipArchiveScheme, authority = [], path = ''/'', query = [],
         fragment = ''/''\<rparr> = True"
  by code_simp


section \<open>Properties of the database manager\<close>

text \<open>
  Every item of the manager is built by the constructor, with resolved contents by
  \<^verbatim>\<open>openDatabase\<close> and without contents from the persisted state, and a refresh through
  the manager stores what the item's own \<^verbatim>\<open>refresh\<close> leaves and fires the item's one
  notification on the manager's emitter. Opening the two example
  databases on a fresh manager creates \<open>zip_item\<close> and \<open>dir_item\<close>.
\<close>

lemma openDatabase_allocates:
  assumes "openDatabase fs u opts m = (Inr r, m', es)"
  shows "\<exists>c fo. fst (resolveDatabaseContents fs u) = Inr c
                \<and> heap m' r = Some (DatabaseItemImpl_new u (Some c) fo)
                \<and> databaseItems m' = databaseItems m @ [r]"
  using assms
  by (auto simp: openDatabase_def allocate_def addDatabaseItem_def updatePersistedDatabaseList_def
                 Let_def
           split: prod.splits sum.splits)

lemma createDatabaseItemFromPersistedState_allocates:
  assumes "createDatabaseItemFromPersistedState state m = (r, m', es)"
  shows "\<exists>fo. heap m' r = Some (DatabaseItemImpl_new (Uri_parse (uri state)) None fo)
              \<and> databaseItems m' = databaseItems m @ [r]"
  using assms
  by (auto simp: createDatabaseItemFromPersistedState_def allocate_def addDatabaseItem_def
                 updatePersistedDatabaseList_def Let_def
           split: prod.splits)

lemma dispatch_onChanged_notification:
  "is_notification (dispatch_onChanged r e) = is_notification e"
  by (cases e) simp_all

lemma refresh_item_notifies_once:
  assumes "heap m r = Some it"
  shows "filter is_notification (snd (snd (refresh_item fs r m))) = [DidChangeDatabaseItem (Some r)]"
proof -
  have "filter is_notification (map (dispatch_onChanged r) (snd (snd (refresh fs it))))
        = map (dispatch_onChanged r) (filter is_notification (snd (snd (refresh fs it))))"
    by (simp add: filter_map comp_def dispatch_onChanged_notification)
  then have "filter is_notification (map (dispatch_onChanged r) (snd (snd (refresh fs it))))
        = [DidChangeDatabaseItem (Some r)]"
    by (simp add: refresh_notifies_once)
  then show ?thesis
    using assms by (auto simp: refresh_item_def split: prod.splits)
qed

lemma refresh_item_stores:
  "heap m r = Some it \<Longrightarrow> heap (fst (snd (refresh_item fs r m))) r = Some (fst (snd (refresh fs it)))"
  by (simp add: refresh_item_def split: prod.splits)

lemma openDatabase_examples:
  "(case openDatabase example_fs (Uri_file ''/db'') None (DatabaseManager_new Map.empty) of
      (r, m, es) \<Rightarrow> r = Inr 0 \<and> heap m 0 = Some zip_item)"
  "(case openDatabase example_fs (Uri_file ''/dirdb'') None (DatabaseManager_new Map.empty) of
      (r, m, es) \<Rightarrow> r = Inr 0 \<and> heap m 0 = Some dir_item)"
  by code_simp+

text \<open>
  Claim C2, as the code has it. When the resolution fails, \<^verbatim>\<open>openDatabase\<close> throws that
  error before it creates an item: the manager is left as it was, no change notification
  is fired, and a find by that location returns what it returned before.
\<close>

theorem openDatabase_failure_leaves_registry:
  assumes "fst (resolveDatabaseContents fs u) = Inl e"
  shows "fst (openDatabase fs u opts m) = Inl e
         \<and> fst (snd (openDatabase fs u opts m)) = m
         \<and> filter is_notification (snd (snd (openDatabase fs u opts m))) = []
         \<and> findDatabaseItem u (fst (snd (openDatabase fs u opts m))) = findDatabaseItem u m"
proof -
  obtain es where r: "resolveDatabaseContents fs u = (Inl e, es)"
    using assms by (cases "resolveDatabaseContents fs u") simp
  have "filter is_notification es = []"
    using resolveDatabaseContents_no_notification [of fs u] by (simp add: r)
  then show ?thesis
    by (simp add: openDatabase_def r)
qed

theorem openDatabase_failure_leaves_registry_witness:
  "fst (resolveDatabaseContents example_fs (Uri_file ''/nope'')) =
     Inl (InvalidDatabaseError (''Database '' @ quoted ''/nope'' @ '' does not exist.''))
   \<and> fst (openDatabase example_fs (Uri_file ''/nope'') None (DatabaseManager_new Map.empty)) =
       Inl (InvalidDatabaseError (''Database '' @ quoted ''/nope'' @ '' does not exist.''))
   \<and> fst (snd (openDatabase example_fs (Uri_file ''/nope'') None (DatabaseManager_new Map.empty)))
       = DatabaseManager_new Map.empty
   \<and> findDatabaseItem (Uri_file ''/nope'')
        (fst (snd (openDatabase example_fs (Uri_file ''/nope'') None (DatabaseManager_new Map.empty))))
       = findDatabaseItem (Uri_file ''/nope'') (DatabaseManager_new Map.empty)"
proof -
  have h: "fst (resolveDatabaseContents example_fs (Uri_file ''/nope'')) =
     Inl (InvalidDatabaseError (''Database '' @ quoted ''/nope'' @ '' does not exist.''))"
    by code_simp
  show ?thesis
    using h openDatabase_failure_leaves_registry [OF h, of None "DatabaseManager_new Map.empty"]
    by simp
qed


text \<open>
  The claim as stated fails: opening a location that does not exist on a fresh manager
  throws, and the manager has no item afterwards.
\<close>

theorem openDatabase_failure_counterexample:
  "fst (openDatabase example_fs (Uri_file ''/nope'') None (DatabaseManager_new Map.empty)) =
     Inl (InvalidDatabaseError (''Database '' @ quoted ''/nope'' @ '' does not exist.''))
   \<and> databaseItems (fst (snd (openDatabase example_fs (Uri_file ''/nope'') None
                                 (DatabaseManager_new Map.empty)))) = []
   \<and> findDatabaseItem (Uri_file ''/nope'')
        (fst (snd (openDatabase example_fs (Uri_file ''/nope'') None
                     (DatabaseManager_new Map.empty)))) = None"
  by code_simp

lemma CURRENT_DB_neq_DB_LIST: "CURRENT_DB \<noteq> DB_LIST"
  by (simp add: CURRENT_DB_def DB_LIST_def)

lemma removeDatabaseItem_current_key:
  "workspaceState (fst (removeDatabaseItem item m)) CURRENT_DB = workspaceState m CURRENT_DB"
  using CURRENT_DB_neq_DB_LIST
  by (simp add: removeDatabaseItem_def updatePersistedDatabaseList_def Let_def split: option.splits)

lemma removeDatabaseItem_current_pointer:
  "currentDatabaseItem (fst (removeDatabaseItem item m)) =
     (if currentDatabaseItem m = Some item then None else currentDatabaseItem m)"
  by (simp add: removeDatabaseItem_def updatePersistedDatabaseList_def Let_def split: option.splits)

lemma setCurrentDatabaseItem_persists:
  "setCurrentDatabaseItem fs item True m = (res, m', es) \<Longrightarrow> currentDatabaseItem m \<noteq> item \<Longrightarrow>
   workspaceState m' CURRENT_DB =
     (case item of
        None \<Rightarrow> None
      | Some r \<Rightarrow> map_option (\<lambda>it. StoredString (Uri_toString (databaseUri it))) (heap m r))"
  by (auto simp: setCurrentDatabaseItem_def updatePersistedCurrentDatabaseItem_def Let_def
           split: option.splits)


text \<open>
  Claim C3 (the code departs from it). On a fresh manager, open \<^verbatim>\<open>/db\<close>, make the item
  current and remove it: the current pointer and the persisted list are cleared, but the
  persisted current-database key still holds the location of the removed item.
  \<^verbatim>\<open>removeDatabaseItem\<close> never writes that key (\<open>removeDatabaseItem_current_key\<close>), while
  \<^verbatim>\<open>setCurrentDatabaseItem\<close> does after changing the pointer
  (\<open>setCurrentDatabaseItem_persists\<close>).
\<close>

theorem removeDatabaseItem_keeps_persisted_current:
  "(let m0 = DatabaseManager_new Map.empty;
        (r1, m1, es1) = openDatabase example_fs (Uri_file ''/db'') None m0;
        (r2, m2, es2) = setCurrentDatabaseItem example_fs (Some 0) False m1;
        (m3, es3) = removeDatabaseItem 0 m2
    in r1 = Inr 0 \<and> r2 = Inr ()
       \<and> currentDatabaseItem m2 = Some 0
       \<and> workspaceState m2 CURRENT_DB = Some (StoredString ''file:///db'')
       \<and> currentDatabaseItem m3 = None
       \<and> databaseItems m3 = []
       \<and> workspaceState m3 DB_LIST = Some (StoredList [])
       \<and> workspaceState m3 CURRENT_DB = Some (StoredString ''file:///db''))"
  by code_simp

end
